theory Spec2Isabelle
  imports Main "HOL-Library.Sublist"
begin

section \<open>The browser pool (src/utils/browserPool.js)\<close>

text \<open>
  The module keeps two arrays, \<open>browserPool\<close> (idle browsers) and \<open>browserQueue\<close>
  (the \<open>resolve\<close> callbacks of suspended \<open>getBrowser\<close> calls). A browser object is
  identified by the order in which puppeteer launched it, a \<open>resolve\<close> callback by the
  request that created it. Two fields record what the module does to the outside:
  \<open>launched\<close> counts the calls of \<open>puppeteer.launch\<close> that returned a browser (neither
  \<open>getBrowser\<close> nor \<open>releaseBrowser\<close> ever closes one, so each of them is a running
  process), and \<open>resolved\<close> logs every call \<open>nextRequester(browser)\<close>.
\<close>

type_synonym handle = nat
type_synonym resolver = nat

definition MAX_BROWSERS :: nat where
  "MAX_BROWSERS = 2"

record pool =
  browserPool :: "handle list"
  browserQueue :: "resolver list"
  launched :: nat
  resolved :: "(resolver \<times> handle) list"

definition initial :: pool where
  "initial = \<lparr>browserPool = [], browserQueue = [], launched = 0, resolved = []\<rparr>"

text \<open>
  \<open>launchNewBrowser\<close>: \<open>puppeteer.launch\<close> either throws (the message is given) or
  returns a fresh browser.
\<close>

definition launchNewBrowser :: "string option \<Rightarrow> pool \<Rightarrow> (string + handle) \<times> pool" where
  "launchNewBrowser launchError s =
     (case launchError of
        Some msg \<Rightarrow> (Inl msg, s)
      | None \<Rightarrow> (Inr (launched s), s\<lparr>launched := Suc (launched s)\<rparr>))"

text \<open>
  What the promise returned by \<open>getBrowser\<close> does: it resolves with a browser popped
  from the pool, stays pending with its \<open>resolve\<close> pushed on the queue, resolves with
  a newly launched browser, or rejects with the launch error.
\<close>

datatype acquired = Reused handle | Queued | Launched handle | LaunchFailed string

definition getBrowser :: "resolver \<Rightarrow> string option \<Rightarrow> pool \<Rightarrow> acquired \<times> pool" where
  "getBrowser requester launchError s =
     (if length (browserPool s) > 0 then
        (Reused (last (browserPool s)), s\<lparr>browserPool := butlast (browserPool s)\<rparr>)
      else if length (browserQueue s) \<ge> MAX_BROWSERS then
        (Queued, s\<lparr>browserQueue := browserQueue s @ [requester]\<rparr>)
      else
        (case launchNewBrowser launchError s of
           (Inl msg, s') \<Rightarrow> (LaunchFailed msg, s')
         | (Inr browser, s') \<Rightarrow> (Launched browser, s')))"

text \<open>
  \<open>releaseBrowser(browser)\<close>; the argument is \<open>None\<close> for a falsy value
  (\<open>undefined\<close>, \<open>null\<close>), which the guard \<open>if (browser)\<close> ignores.
\<close>

definition releaseBrowser :: "handle option \<Rightarrow> pool \<Rightarrow> pool" where
  "releaseBrowser browser s =
     (case browser of
        None \<Rightarrow> s
      | Some b \<Rightarrow>
          (case browserQueue s of
             nextRequester # rest \<Rightarrow>
               s\<lparr>browserQueue := rest, resolved := resolved s @ [(nextRequester, b)]\<rparr>
           | [] \<Rightarrow> s\<lparr>browserPool := browserPool s @ [b]\<rparr>))"

text \<open>Sequences of calls on the module, for statements about every interleaving.\<close>

datatype call = GetBrowser resolver "string option" | ReleaseBrowser "handle option"

fun step :: "call \<Rightarrow> pool \<Rightarrow> pool" where
  "step (GetBrowser requester launchError) s = snd (getBrowser requester launchError s)"
| "step (ReleaseBrowser browser) s = releaseBrowser browser s"

definition run :: "call list \<Rightarrow> pool \<Rightarrow> pool" where
  "run calls s = fold step calls s"

text \<open>
  One \<open>getBrowser\<close> call for each requester in turn, every launch succeeding and no
  browser released in between; the results are collected in call order.
\<close>

fun acquire_all :: "resolver list \<Rightarrow> pool \<Rightarrow> acquired list \<times> pool" where
  "acquire_all [] s = ([], s)"
| "acquire_all (r # rs) s =
     (case getBrowser r None s of
        (a, s') \<Rightarrow> (case acquire_all rs s' of (as, s'') \<Rightarrow> (a # as, s'')))"


section \<open>The media extractor (page.evaluate in src/server/services/instagram.js)\<close>

text \<open>
  \<open>String.prototype.includes\<close>: the argument occurs somewhere in the string.
\<close>

fun str_includes :: "string \<Rightarrow> string \<Rightarrow> bool" where
  "str_includes [] sub = (sub = [])"
| "str_includes (c # cs) sub = (prefix sub (c # cs) \<or> str_includes cs sub)"

text \<open>
  The six selectors only match \<open>img\<close>, \<open>video\<close> and \<open>meta\<close> elements, so
  \<open>el.tagName.toLowerCase()\<close> has three values. Of an element the callback reads the
  property \<open>el.src\<close> (\<open>undefined\<close> on a \<open>meta\<close> element, hence an option), the
  attribute \<open>el.getAttribute('src')\<close> (\<open>null\<close> when absent), \<open>el.content\<close>,
  \<open>el.getAttribute('property')\<close> and the natural size, which is read for images only.
\<close>

datatype tag = tag_img | tag_video | tag_meta

datatype media_type = ImageType | VideoType

record element =
  tagName :: tag
  src :: "string option"
  srcAttribute :: "string option"
  content :: "string option"
  property :: "string option"
  naturalWidth :: nat
  naturalHeight :: nat

record media =
  url :: string
  type :: media_type

text \<open>
  The selector engine belongs to the browser. A document is given by what
  \<open>document.querySelectorAll\<close> returns, in document order, for each selector of the
  list; an element may be returned for several selectors.
\<close>

datatype selector =
    ArticleImgSrcset | ArticleVideoSrc | MainImgScontent | MainVideoScontent
  | MetaOgImage | MetaOgVideo

type_synonym dom = "selector \<Rightarrow> element list"

definition selectors :: "selector list" where
  "selectors = [ArticleImgSrcset, ArticleVideoSrc, MainImgScontent, MainVideoScontent,
                MetaOgImage, MetaOgVideo]"

text \<open>JavaScript truthiness of a string that may be missing, and \<open>a || b\<close> on such values.\<close>

definition truthy :: "string option \<Rightarrow> bool" where
  "truthy v = (case v of None \<Rightarrow> False | Some s \<Rightarrow> s \<noteq> [])"

definition js_or :: "string option \<Rightarrow> string option \<Rightarrow> string option" where
  "js_or a b = (if truthy a then a else b)"

text \<open>\<open>el.src || el.getAttribute('src') || el.content\<close>\<close>

definition resolveSrc :: "element \<Rightarrow> string option" where
  "resolveSrc el = js_or (js_or (src el) (srcAttribute el)) (content el)"

text \<open>\<open>src.split('?')[0]\<close>\<close>

definition stripQuery :: "string \<Rightarrow> string" where
  "stripQuery s = takeWhile (\<lambda>c. c \<noteq> CHR ''?'') s"

text \<open>\<open>src.includes('scontent') || src.includes('instagram.com')\<close>\<close>

definition onCdn :: "string \<Rightarrow> bool" where
  "onCdn s = (str_includes s ''scontent'' \<or> str_includes s ''instagram.com'')"

definition isThumbnail :: "element \<Rightarrow> bool" where
  "isThumbnail el =
     (tagName el = tag_img \<and> (naturalWidth el < 300 \<or> naturalHeight el < 300))"

definition classify :: "element \<Rightarrow> media_type" where
  "classify el =
     (if tagName el = tag_video \<or> property el = Some ''og:video'' then VideoType
      else ImageType)"

text \<open>
  The body of the inner \<open>forEach\<close>, on the two accumulators \<open>media\<close> and
  \<open>foundSources\<close>.
\<close>

definition visit :: "element \<Rightarrow> media list \<times> string set \<Rightarrow> media list \<times> string set" where
  "visit el st =
     (case st of (media, foundSources) \<Rightarrow>
        (case resolveSrc el of
           None \<Rightarrow> (media, foundSources)
         | Some raw \<Rightarrow>
             if raw = [] then (media, foundSources)
             else
               (let s = stripQuery raw in
                  if onCdn s then
                    (if \<not> isThumbnail el \<and> s \<notin> foundSources
                     then (media @ [\<lparr>url = s, type = classify el\<rparr>], insert s foundSources)
                     else (media, foundSources))
                  else (media, foundSources))))"

text \<open>The elements in the order the two nested \<open>forEach\<close> loops visit them.\<close>

definition matched :: "dom \<Rightarrow> element list" where
  "matched document = concat (map document selectors)"

definition extractMedia :: "dom \<Rightarrow> media list" where
  "extractMedia document = fst (fold visit (matched document) ([], {}))"


section \<open>The download (downloadInstagramContent and downloadFallbackContent)\<close>

text \<open>
  What the function does to the outside is recorded as a list of events, in the order
  of the calls. \<open>EvFallback\<close> is the call of \<open>downloadFallbackContent\<close>,
  \<open>EvReleaseBrowser\<close> the call of \<open>releaseBrowser\<close>.
\<close>

datatype event =
    EvGetBrowser | EvNewPage | EvGoto string | EvEvaluate | EvDownload string
  | EvUnlink string | EvFallback | EvClosePage | EvReleaseBrowser handle

text \<open>
  The object of the two \<open>return\<close> statements. Its field \<open>size\<close> is called
  \<open>sizeLabel\<close> here; \<open>contentType\<close> holds \<open>'image'\<close> or \<open>'video'\<close>; \<open>thumbnail\<close>
  may be \<open>null\<close> and \<open>note\<close> absent.
\<close>

record manifest =
  success :: bool
  downloadUrl :: string
  filename :: string
  contentType :: media_type
  sizeLabel :: string
  localPath :: string
  thumbnail :: "string option"
  "note" :: "string option"

text \<open>
  The outcomes of the calls into puppeteer, axios and the libraries, for one request: \<open>Inl\<close> carries the message of the error thrown. \<open>getBrowserResult\<close> is
  how the promise of \<open>getBrowser()\<close> settles (a request whose promise is never resolved
  does not get past that line and returns nothing). \<open>setupResult\<close> stands for the user
  agent and viewport calls, \<open>axiosResult\<close> and \<open>fallbackAxiosResult\<close> for the two axios
  requests (an error, or a response). \<open>Math.random()\<close> is \<open>mathRandom / 2 ^ 53\<close>.
  \<open>path.join\<close> is a parameter.
\<close>

record world =
  getBrowserResult :: "string + handle"
  newPageResult :: "string + unit"
  setupResult :: "string + unit"
  gotoResult :: "string + unit"
  evaluateResult :: "string + dom"
  uuid :: string
  axiosResult :: "string + unit"
  fallbackAxiosResult :: "string + unit"
  closePageResult :: "string + unit"
  mathRandom :: nat
  pathJoin :: "string \<Rightarrow> string \<Rightarrow> string"

text \<open>
  The state in which control leaves the \<open>try\<close> block: the events so far, the local
  variables \<open>browserInstance\<close>, \<open>page\<close> (assigned or not) and \<open>downloadedFilePath\<close>,
  and the message of the error thrown (or the manifest returned, which no branch
  reaches).
\<close>

record attempt =
  trace :: "event list"
  browserInstance :: "handle option"
  page :: bool
  downloadedFilePath :: "string option"
  outcome :: "string + manifest"

text \<open>
  The module imports \<open>fs.promises\<close> under the name \<open>fsPromises\<close>, and that object has
  no function \<open>createWriteStream\<close>. Both calls \<open>fsPromises.createWriteStream(filePath)\<close>,
  in \<open>downloadInstagramContent\<close> and in \<open>downloadFallbackContent\<close>, therefore throw a
  \<open>TypeError\<close> with this message as soon as axios has answered. The statements behind
  them (the piping, the wait for the stream, \<open>stat\<close> and the \<open>return\<close> of the manifest)
  are never executed.
\<close>

definition createWriteStreamError :: string where
  "createWriteStreamError = ''fsPromises.createWriteStream is not a function''"

text \<open>
  The \<open>try\<close> block. The waits for the content area, the media element and the login
  dialog sit in inner \<open>try\<close> blocks whose \<open>catch\<close> only logs, so they change nothing
  here. \<open>ctype\<close> is the parameter \<open>contentType\<close>, \<open>postUrl\<close> the parameter \<open>url\<close>.
\<close>

definition tryBlock :: "string \<Rightarrow> string \<Rightarrow> string \<Rightarrow> world \<Rightarrow> attempt" where
  "tryBlock postUrl ctype downloadsDir w =
     (case getBrowserResult w of
        Inl e \<Rightarrow>
          \<lparr>trace = [EvGetBrowser], browserInstance = None, page = False,
           downloadedFilePath = None, outcome = Inl e\<rparr>
      | Inr browser \<Rightarrow>
     (case newPageResult w of
        Inl e \<Rightarrow>
          \<lparr>trace = [EvGetBrowser, EvNewPage], browserInstance = Some browser, page = False,
           downloadedFilePath = None, outcome = Inl e\<rparr>
      | Inr _ \<Rightarrow>
     (case setupResult w of
        Inl e \<Rightarrow>
          \<lparr>trace = [EvGetBrowser, EvNewPage], browserInstance = Some browser, page = True,
           downloadedFilePath = None, outcome = Inl e\<rparr>
      | Inr _ \<Rightarrow>
     (case gotoResult w of
        Inl e \<Rightarrow>
          \<lparr>trace = [EvGetBrowser, EvNewPage, EvGoto postUrl], browserInstance = Some browser,
           page = True, downloadedFilePath = None, outcome = Inl e\<rparr>
      | Inr _ \<Rightarrow>
     (case evaluateResult w of
        Inl e \<Rightarrow>
          \<lparr>trace = [EvGetBrowser, EvNewPage, EvGoto postUrl, EvEvaluate],
           browserInstance = Some browser, page = True, downloadedFilePath = None,
           outcome = Inl e\<rparr>
      | Inr document \<Rightarrow>
     (case extractMedia document of
        [] \<Rightarrow>
          \<lparr>trace = [EvGetBrowser, EvNewPage, EvGoto postUrl, EvEvaluate],
           browserInstance = Some browser, page = True, downloadedFilePath = None,
           outcome = Inl ''No media found in Instagram post for given URL.''\<rparr>
      | media # _ \<Rightarrow>
          (let fileExtension = (if type media = VideoType then ''mp4'' else ''jpg'');
               fname = ''instagram_'' @ ctype @ ''_'' @ uuid w @ ''.'' @ fileExtension;
               filePath = pathJoin w downloadsDir fname
           in \<lparr>trace = [EvGetBrowser, EvNewPage, EvGoto postUrl, EvEvaluate,
                         EvDownload (url media)],
                browserInstance = Some browser, page = True,
                downloadedFilePath = Some filePath,
                outcome =
                  (case axiosResult w of
                     Inl e \<Rightarrow> Inl e
                   | Inr response \<Rightarrow> Inl createWriteStreamError)\<rparr>)))))))"

definition sampleUrls :: "media_type \<Rightarrow> string" where
  "sampleUrls t =
     (case t of
        ImageType \<Rightarrow> ''https://picsum.photos/800/600''
      | VideoType \<Rightarrow> ''https://sample-videos.com/zip/10/mp4/SampleVideo_1280x720_1mb.mp4'')"

definition isVideo :: "string \<Rightarrow> bool" where
  "isVideo ctype = (ctype = ''reel'' \<or> ctype = ''story'' \<or> ctype = ''video'')"

text \<open>
  \<open>downloadFallbackContent\<close>: the sample asset is requested; then either axios or
  \<open>fsPromises.createWriteStream\<close> throws, and the function's own \<open>catch\<close> rethrows with
  the prefix \<open>Fallback download failed:\<close>. The file name and path are only logged and
  handed to \<open>createWriteStream\<close>.
\<close>

definition downloadFallbackContent ::
    "string \<Rightarrow> string \<Rightarrow> string \<Rightarrow> world \<Rightarrow> event list \<times> (string + manifest)" where
  "downloadFallbackContent ctype downloadsDir platform w =
     (let mediaType = (if isVideo ctype then VideoType else ImageType)
      in ([EvDownload (sampleUrls mediaType)],
          (case fallbackAxiosResult w of
             Inl e \<Rightarrow> Inl (''Fallback download failed: '' @ e)
           | Inr response \<Rightarrow> Inl (''Fallback download failed: '' @ createWriteStreamError))))"

text \<open>
  The \<open>catch\<close> block, entered with \<open>error.message\<close>: if \<open>downloadedFilePath\<close>
  is truthy the partial file is unlinked (errors of \<open>unlink\<close> are only logged), then
  the fallback runs.
\<close>

definition catchBlock ::
    "attempt \<Rightarrow> string \<Rightarrow> string \<Rightarrow> string \<Rightarrow> world \<Rightarrow> event list \<times> (string + manifest)" where
  "catchBlock a message ctype downloadsDir w =
     (let cleanup = (case downloadedFilePath a of
                       Some p \<Rightarrow> if p \<noteq> [] then [EvUnlink p] else []
                     | None \<Rightarrow> []);
          fallback = downloadFallbackContent ctype downloadsDir ''instagram'' w
      in (cleanup @ [EvFallback] @ fst fallback,
          (case snd fallback of
             Inr fallbackResult \<Rightarrow>
               Inr (fallbackResult\<lparr>note :=
                      Some (''Primary download failed: '' @ message
                            @ ''. Serving fallback content.'')\<rparr>)
           | Inl fallbackMessage \<Rightarrow>
               Inl (''Failed to download content from Instagram or provide fallback: ''
                    @ message))))"

text \<open>
  The \<open>finally\<close> block, entered with the result \<open>r\<close> of what ran before. An error of
  \<open>page.close()\<close> replaces that result and skips the release.
\<close>

definition finallyBlock ::
    "attempt \<Rightarrow> world \<Rightarrow> string + manifest \<Rightarrow> event list \<times> (string + manifest)" where
  "finallyBlock a w r =
     (let release = (case browserInstance a of Some b \<Rightarrow> [EvReleaseBrowser b] | None \<Rightarrow> [])
      in if page a then
           (case closePageResult w of
              Inl e \<Rightarrow> ([EvClosePage], Inl e)
            | Inr _ \<Rightarrow> (EvClosePage # release, r))
         else (release, r))"

definition downloadInstagramContent ::
    "string \<Rightarrow> string \<Rightarrow> string \<Rightarrow> world \<Rightarrow> event list \<times> (string + manifest)" where
  "downloadInstagramContent postUrl ctype downloadsDir w =
     (let a = tryBlock postUrl ctype downloadsDir w;
          c = (case outcome a of
                 Inr m \<Rightarrow> ([], Inr m)
               | Inl message \<Rightarrow> catchBlock a message ctype downloadsDir w);
          f = finallyBlock a w (snd c)
      in (trace a @ fst c @ fst f, snd f))"

text \<open>
  The choice of \<open>mediaType\<close> in \<open>downloadTestContent\<close> (the test content service, a
  different provider): an unknown content type becomes \<open>'post'\<close>; reel and highlight are
  videos; for post and story \<open>Math.random() > 0.5\<close> decides.
\<close>

definition testMediaType :: "string \<Rightarrow> world \<Rightarrow> media_type" where
  "testMediaType ctype w =
     (let ctype' = (if ctype \<in> set [''post'', ''story'', ''reel'', ''highlight'']
                    then ctype else ''post'')
      in if ctype' = ''reel'' \<or> ctype' = ''highlight'' then VideoType
         else if mathRandom w > 2 ^ 52 then VideoType else ImageType)"


section \<open>Notions used in the statements\<close>

text \<open>Who holds a browser after a release: the idle pool and the resolved waiters.\<close>

definition holders :: "pool \<Rightarrow> handle list" where
  "holders s = browserPool s @ map snd (resolved s)"

text \<open>
  The URL under which an element is de-duplicated, if it has one, and the elements that
  pass both filters with it.
\<close>

definition normalizedSrc :: "element \<Rightarrow> string option" where
  "normalizedSrc el =
     (case resolveSrc el of
        None \<Rightarrow> None
      | Some raw \<Rightarrow> if raw = [] then None else Some (stripQuery raw))"

definition accepted :: "element \<Rightarrow> string \<Rightarrow> bool" where
  "accepted el u = (normalizedSrc el = Some u \<and> onCdn u \<and> \<not> isThumbnail el)"

text \<open>
  The host of an absolute URL \<open>scheme://host/path\<close>, which the specification speaks of;
  the source never computes it.
\<close>

definition url_host :: "string \<Rightarrow> string" where
  "url_host address =
     takeWhile (\<lambda>c. c \<noteq> CHR ''/'') (drop 2 (dropWhile (\<lambda>c. c \<noteq> CHR ''/'') address))"

fun is_release :: "event \<Rightarrow> bool" where
  "is_release (EvReleaseBrowser _) = True"
| "is_release _ = False"

text \<open>Some browser is released before the fallback is called.\<close>

definition released_before_fallback :: "event list \<Rightarrow> bool" where
  "released_before_fallback tr = list_ex is_release (takeWhile (\<lambda>e. e \<noteq> EvFallback) tr)"


section \<open>Example inputs\<close>

definition photo :: "string \<Rightarrow> nat \<Rightarrow> element" where
  "photo address side =
     \<lparr>tagName = tag_img, src = Some address, srcAttribute = Some address, content = None,
      property = None, naturalWidth = side, naturalHeight = side\<rparr>"

text \<open>One full-size photo, present twice with different query strings.\<close>

definition photo_dom :: dom where
  "photo_dom =
     (\<lambda>_. [])(ArticleImgSrcset :=
        [photo ''https://scontent.cdninstagram.com/v/p.jpg?stp=1'' 1080,
         photo ''https://scontent.cdninstagram.com/v/p.jpg?stp=2'' 1080])"

text \<open>The same with both images 150 pixels wide and high.\<close>

definition thumbnails_dom :: dom where
  "thumbnails_dom =
     (\<lambda>_. [])(ArticleImgSrcset :=
        [photo ''https://scontent.cdninstagram.com/v/p.jpg?stp=1'' 150,
         photo ''https://scontent.cdninstagram.com/v/p.jpg?stp=2'' 150])"

text \<open>An image served by another host, with \<open>instagram.com\<close> in its path.\<close>

definition foreign_host_dom :: dom where
  "foreign_host_dom =
     (\<lambda>_. [])(ArticleImgSrcset :=
        [photo ''https://evil.example/instagram.com/logo.png'' 640])"

text \<open>
  A request on which the photo is found and every call into puppeteer and axios succeeds.
\<close>

definition example_world :: world where
  "example_world =
     \<lparr>getBrowserResult = Inr 0, newPageResult = Inr (), setupResult = Inr (),
      gotoResult = Inr (), evaluateResult = Inr photo_dom, uuid = ''u1'',
      axiosResult = Inr (), fallbackAxiosResult = Inr (),
      closePageResult = Inr (), mathRandom = 0,
      pathJoin = (\<lambda>d f. d @ ''/'' @ f)\<rparr>"

text \<open>The navigation times out.\<close>

definition navigation_timeout_world :: world where
  "navigation_timeout_world =
     example_world\<lparr>gotoResult := Inl ''Navigation timeout of 45000 ms exceeded''\<rparr>"

text \<open>The page holds no media and the fallback request times out.\<close>

definition no_media_no_fallback_world :: world where
  "no_media_no_fallback_world =
     example_world\<lparr>evaluateResult := Inr (\<lambda>_. []),
                   fallbackAxiosResult := Inl ''timeout of 30000ms exceeded''\<rparr>"


section \<open>Properties of the pool\<close>

lemma MAX_BROWSERS_pos: "0 < MAX_BROWSERS"
  by (simp add: MAX_BROWSERS_def)

lemma getBrowser_queue_empty:
  "browserQueue s = [] \<Longrightarrow> browserQueue (snd (getBrowser r e s)) = []"
  by (simp add: getBrowser_def launchNewBrowser_def MAX_BROWSERS_def split: option.splits)

lemma releaseBrowser_queue_empty:
  "browserQueue s = [] \<Longrightarrow> browserQueue (releaseBrowser b s) = []"
  by (simp add: releaseBrowser_def split: option.splits)

text \<open>
  Starting from an empty queue, no sequence of calls ever enqueues a waiter: the only
  push on \<open>browserQueue\<close> is guarded by \<open>browserQueue.length >= MAX_BROWSERS\<close>.
\<close>

lemma run_queue_empty:
  "browserQueue s = [] \<Longrightarrow> browserQueue (run calls s) = []"
  unfolding run_def
proof (induction calls arbitrary: s)
  case Nil
  then show ?case by simp
next
  case (Cons c calls)
  have "browserQueue (step c s) = []"
    using Cons.prems
    by (cases c) (simp_all add: getBrowser_queue_empty releaseBrowser_queue_empty)
  then show ?case
    using Cons.IH by simp
qed

lemma getBrowser_launches_when_idle_empty:
  "browserPool s = [] \<Longrightarrow> browserQueue s = [] \<Longrightarrow>
   getBrowser r None s = (Launched (launched s), s\<lparr>launched := Suc (launched s)\<rparr>)"
  by (simp add: getBrowser_def launchNewBrowser_def MAX_BROWSERS_def)

text \<open>
  With nothing released, \<open>n\<close> calls of \<open>getBrowser\<close> launch \<open>n\<close> browsers, whatever
  \<open>n\<close> is.
\<close>

lemma acquire_all_launches:
  "browserPool s = [] \<Longrightarrow> browserQueue s = [] \<Longrightarrow>
   acquire_all rs s =
     (map Launched [launched s ..< launched s + length rs],
      s\<lparr>launched := launched s + length rs\<rparr>)"
proof (induction rs arbitrary: s)
  case Nil
  then show ?case by simp
next
  case (Cons r rs)
  let ?s' = "s\<lparr>launched := Suc (launched s)\<rparr>"
  have g: "getBrowser r None s = (Launched (launched s), ?s')"
    using Cons.prems by (rule getBrowser_launches_when_idle_empty)
  have "acquire_all rs ?s' =
          (map Launched [launched ?s' ..< launched ?s' + length rs],
           ?s'\<lparr>launched := launched ?s' + length rs\<rparr>)"
    using Cons.prems by (intro Cons.IH) simp_all
  moreover have "[launched s ..< Suc (launched s + length rs)] =
                   launched s # [Suc (launched s) ..< Suc (launched s + length rs)]"
    by (rule upt_conv_Cons) simp
  ultimately show ?case
    using g by (simp del: upt_Suc)
qed

text \<open>
  Claim C1. The pool is said to hold at most \<open>MAX_BROWSERS\<close> live browsers and
  \<open>getBrowser\<close> never to construct one beyond that. The code compares the number of
  waiters with \<open>MAX_BROWSERS\<close>, not the number of browsers: three calls of
  \<open>getBrowser\<close> on the fresh module, with no release in between, launch three
  browsers, all three checked out at once, while \<open>MAX_BROWSERS\<close> is 2.
\<close>

theorem getBrowser_exceeds_MAX_BROWSERS:
  "acquire_all [1, 2, 3] initial =
     ([Launched 0, Launched 1, Launched 2],
      \<lparr>browserPool = [], browserQueue = [], launched = 3, resolved = []\<rparr>)
   \<and> MAX_BROWSERS < launched (snd (acquire_all [1, 2, 3] initial))"
  by (simp add: initial_def getBrowser_def launchNewBrowser_def MAX_BROWSERS_def)

text \<open>
  Claim C4. A release of a browser does exactly one of two things: with a waiter queued,
  the head waiter is resolved with the browser, the queue loses its head and the idle pool
  is unchanged; with no waiter, the browser is appended to the idle pool and nobody is
  resolved. Nothing else changes.
\<close>

theorem releaseBrowser_exactly_one:
  "(browserQueue s \<noteq> [] \<longrightarrow>
      resolved (releaseBrowser (Some h) s) = resolved s @ [(hd (browserQueue s), h)]
      \<and> browserQueue (releaseBrowser (Some h) s) = tl (browserQueue s)
      \<and> browserPool (releaseBrowser (Some h) s) = browserPool s
      \<and> launched (releaseBrowser (Some h) s) = launched s)
   \<and> (browserQueue s = [] \<longrightarrow>
      browserPool (releaseBrowser (Some h) s) = browserPool s @ [h]
      \<and> resolved (releaseBrowser (Some h) s) = resolved s
      \<and> browserQueue (releaseBrowser (Some h) s) = []
      \<and> launched (releaseBrowser (Some h) s) = launched s)"
  by (cases "browserQueue s") (simp_all add: releaseBrowser_def)

theorem releaseBrowser_exactly_one_witness:
  "(browserQueue \<lparr>browserPool = [], browserQueue = [7, 8], launched = 2, resolved = []\<rparr> \<noteq> []
    \<and> resolved (releaseBrowser (Some 1)
          \<lparr>browserPool = [], browserQueue = [7, 8], launched = 2, resolved = []\<rparr>) = [(7, 1)]
    \<and> browserPool (releaseBrowser (Some 1)
          \<lparr>browserPool = [], browserQueue = [7, 8], launched = 2, resolved = []\<rparr>) = [])
   \<and> (browserQueue \<lparr>browserPool = [0], browserQueue = [], launched = 2, resolved = []\<rparr> = []
    \<and> browserPool (releaseBrowser (Some 1)
          \<lparr>browserPool = [0], browserQueue = [], launched = 2, resolved = []\<rparr>) = [0, 1]
    \<and> resolved (releaseBrowser (Some 1)
          \<lparr>browserPool = [0], browserQueue = [], launched = 2, resolved = []\<rparr>) = [])"
  using releaseBrowser_exactly_one
          [of "\<lparr>browserPool = [], browserQueue = [7, 8], launched = 2, resolved = []\<rparr>" 1]
        releaseBrowser_exactly_one
          [of "\<lparr>browserPool = [0], browserQueue = [], launched = 2, resolved = []\<rparr>" 1]
  by simp

text \<open>
  Claim C5, as stated: a second release of the same browser is rejected. The code has no
  such check. Released twice with no waiter queued, browser 0 sits in the idle pool twice,
  and the next two \<open>getBrowser\<close> calls hand it to two different requests.
\<close>

theorem double_release_counterexample:
  "releaseBrowser (Some 0) (releaseBrowser (Some 0)
      \<lparr>browserPool = [], browserQueue = [], launched = 1, resolved = []\<rparr>)
     = \<lparr>browserPool = [0, 0], browserQueue = [], launched = 1, resolved = []\<rparr>
   \<and> acquire_all [1, 2] \<lparr>browserPool = [0, 0], browserQueue = [], launched = 1, resolved = []\<rparr>
     = ([Reused 0, Reused 0],
        \<lparr>browserPool = [], browserQueue = [], launched = 1, resolved = []\<rparr>)"
  by (simp add: releaseBrowser_def getBrowser_def)

lemma holders_releaseBrowser:
  "count_list (holders (releaseBrowser (Some h) s)) h = Suc (count_list (holders s) h)"
  by (cases "browserQueue s") (simp_all add: releaseBrowser_def holders_def)

text \<open>
  Claim C5, as the code has it: \<open>releaseBrowser\<close> accepts every release. Each of two
  releases of the same browser hands it to one more holder (the head waiter, or the idle
  pool), so after the second release the browser has two more holders than before.
\<close>

theorem double_release_duplicates:
  "count_list (holders (releaseBrowser (Some h) (releaseBrowser (Some h) s))) h
     = count_list (holders s) h + 2"
  by (simp add: holders_releaseBrowser)

text \<open>
  Claim C9. With no waiter queued, a browser released into the idle pool is the one the
  very next \<open>getBrowser\<close> returns, at once and without a launch; the pool is then as
  it was before the release.
\<close>

theorem release_then_getBrowser_returns_it:
  "browserQueue s = [] \<Longrightarrow>
   getBrowser r e (releaseBrowser (Some h) s) = (Reused h, s)"
  by (simp add: getBrowser_def releaseBrowser_def)

theorem release_then_getBrowser_returns_it_witness:
  "browserQueue \<lparr>browserPool = [0], browserQueue = [], launched = 2, resolved = []\<rparr> = []
   \<and> getBrowser 5 None (releaseBrowser (Some 1)
         \<lparr>browserPool = [0], browserQueue = [], launched = 2, resolved = []\<rparr>)
       = (Reused 1, \<lparr>browserPool = [0], browserQueue = [], launched = 2, resolved = []\<rparr>)"
  using release_then_getBrowser_returns_it
          [of "\<lparr>browserPool = [0], browserQueue = [], launched = 2, resolved = []\<rparr>" 5 None 1]
  by simp


section \<open>Properties of the media extractor\<close>

lemma str_includes_iff_sublist: "str_includes s sub \<longleftrightarrow> sublist sub s"
  by (induction s) (simp_all add: sublist_Cons_right)

lemma str_includes_append: "str_includes (p @ s) s"
  by (simp add: str_includes_iff_sublist)

lemma visit_cases:
  "visit el (media, found) =
     (case normalizedSrc el of
        None \<Rightarrow> (media, found)
      | Some u \<Rightarrow>
          if accepted el u \<and> u \<notin> found
          then (media @ [\<lparr>url = u, type = classify el\<rparr>], insert u found)
          else (media, found))"
  by (simp add: visit_def normalizedSrc_def accepted_def Let_def split: option.splits)

lemma normalizedSrc_no_query:
  "normalizedSrc el = Some u \<Longrightarrow> CHR ''?'' \<notin> set u"
  by (auto simp: normalizedSrc_def stripQuery_def split: option.splits if_splits
           dest: set_takeWhileD)

text \<open>
  The loop invariant: \<open>foundSources\<close> is the set of the URLs in \<open>media\<close>, no URL is
  there twice, and the URLs are those already there and those of the accepted elements
  visited.
\<close>

lemma fold_visit_invariant:
  assumes "found = url ` set media" and "distinct (map url media)"
  shows "snd (fold visit els (media, found)) = url ` set (fst (fold visit els (media, found)))
       \<and> distinct (map url (fst (fold visit els (media, found))))
       \<and> url ` set (fst (fold visit els (media, found)))
           = url ` set media \<union> {u. \<exists>el \<in> set els. accepted el u}"
  using assms
proof (induction els arbitrary: media found)
  case Nil
  then show ?case by simp
next
  case (Cons el els)
  show ?case
  proof (cases "\<exists>u. accepted el u \<and> u \<notin> found")
    case True
    then obtain u where u: "accepted el u" "u \<notin> found" by blast
    then have n: "normalizedSrc el = Some u" by (simp add: accepted_def)
    let ?media = "media @ [\<lparr>url = u, type = classify el\<rparr>]"
    have v: "visit el (media, found) = (?media, insert u found)"
      using u n by (simp add: visit_cases)
    have only: "\<And>u'. accepted el u' \<longleftrightarrow> u' = u"
      using u n by (auto simp: accepted_def)
    have "insert u found = url ` set ?media" "distinct (map url ?media)"
      using Cons.prems u by auto
    from Cons.IH [OF this] show ?thesis
      using v only by auto
  next
    case False
    then have v: "visit el (media, found) = (media, found)"
      by (auto simp: visit_cases accepted_def split: option.splits)
    have "\<And>u. accepted el u \<Longrightarrow> u \<in> url ` set media"
      using False Cons.prems(1) by blast
    with Cons.IH [OF Cons.prems] show ?thesis
      using v by auto
  qed
qed

lemma count_distinct_key:
  "distinct (map f xs) \<Longrightarrow>
   length (filter (\<lambda>x. f x = k) xs) = (if k \<in> f ` set xs then 1 else 0)"
  by (induction xs) (auto simp: image_iff)

lemma extractMedia_urls:
  "url ` set (extractMedia document) = {u. \<exists>el \<in> set (matched document). accepted el u}"
  and extractMedia_distinct: "distinct (map url (extractMedia document))"
  using fold_visit_invariant [of "{}" "[]" "matched document"]
  by (simp_all add: extractMedia_def)

lemmas example_defs =
  example_world_def navigation_timeout_world_def no_media_no_fallback_world_def
  photo_dom_def thumbnails_dom_def foreign_host_dom_def photo_def

lemmas extract_defs =
  extractMedia_def matched_def selectors_def visit_def resolveSrc_def js_or_def truthy_def
  stripQuery_def onCdn_def isThumbnail_def classify_def Let_def

lemmas download_defs =
  downloadInstagramContent_def tryBlock_def catchBlock_def finallyBlock_def
  downloadFallbackContent_def isVideo_def sampleUrls_def createWriteStreamError_def Let_def

text \<open>
  Claim C6, as stated: two matched elements whose URLs differ only in the query string
  yield exactly one candidate for the normalized URL. Two images of 150 by 150 pixels
  with the same normalized URL on the content-delivery domain are both dropped by the
  thumbnail heuristic, and the result holds no candidate for that URL.
\<close>

theorem duplicate_thumbnails_counterexample:
  "normalizedSrc (photo ''https://scontent.cdninstagram.com/v/p.jpg?stp=1'' 150)
     = Some ''https://scontent.cdninstagram.com/v/p.jpg''
   \<and> normalizedSrc (photo ''https://scontent.cdninstagram.com/v/p.jpg?stp=2'' 150)
     = Some ''https://scontent.cdninstagram.com/v/p.jpg''
   \<and> matched thumbnails_dom
     = [photo ''https://scontent.cdninstagram.com/v/p.jpg?stp=1'' 150,
        photo ''https://scontent.cdninstagram.com/v/p.jpg?stp=2'' 150]
   \<and> extractMedia thumbnails_dom = []"
  by (simp add: example_defs extract_defs normalizedSrc_def)

text \<open>
  Claim C6, as the code has it. Every URL is cut at its first question mark before the
  filters and the de-duplication. For each normalized URL the result holds exactly one
  candidate when some matched element with that normalized URL passes the domain filter
  and the thumbnail heuristic, and none otherwise; so elements that differ only in the
  query string never yield two candidates. No returned URL contains a question mark, and
  a document in which no selector matches yields the empty list.
\<close>

theorem extractMedia_one_per_normalized_url:
  "length (filter (\<lambda>m. url m = u) (extractMedia document))
     = (if \<exists>el \<in> set (matched document). accepted el u then 1 else 0)
   \<and> (\<forall>m \<in> set (extractMedia document). CHR ''?'' \<notin> set (url m))
   \<and> extractMedia (\<lambda>_. []) = []"
proof (intro conjI)
  have "u \<in> url ` set (extractMedia document)
          \<longleftrightarrow> (\<exists>el \<in> set (matched document). accepted el u)"
    by (simp add: extractMedia_urls)
  then show "length (filter (\<lambda>m. url m = u) (extractMedia document))
     = (if \<exists>el \<in> set (matched document). accepted el u then 1 else 0)"
    using count_distinct_key [of url "extractMedia document" u]
          extractMedia_distinct [of document]
    by simp
next
  show "\<forall>m \<in> set (extractMedia document). CHR ''?'' \<notin> set (url m)"
  proof
    fix m assume "m \<in> set (extractMedia document)"
    then have "url m \<in> url ` set (extractMedia document)" by simp
    then obtain el where "accepted el (url m)"
      unfolding extractMedia_urls by blast
    then show "CHR ''?'' \<notin> set (url m)"
      by (auto simp: accepted_def dest: normalizedSrc_no_query)
  qed
next
  show "extractMedia (\<lambda>_. []) = []"
    by (simp add: extractMedia_def matched_def selectors_def)
qed

theorem extractMedia_one_per_normalized_url_witness:
  "(\<exists>el \<in> set (matched photo_dom). accepted el ''https://scontent.cdninstagram.com/v/p.jpg'')
   \<and> length (matched photo_dom) = 2
   \<and> length (filter (\<lambda>m. url m = ''https://scontent.cdninstagram.com/v/p.jpg'')
                (extractMedia photo_dom)) = 1
   \<and> extractMedia photo_dom \<noteq> []"
  using extractMedia_one_per_normalized_url
          [of "''https://scontent.cdninstagram.com/v/p.jpg''" photo_dom]
  by (simp add: example_defs extract_defs accepted_def normalizedSrc_def)

text \<open>
  Claim C7, as stated: a URL whose host is outside the content-delivery domains is
  rejected, also when an allowlisted name occurs elsewhere in it. The filter searches the
  whole URL: an image of the host \<open>evil.example\<close> with \<open>instagram.com\<close> in its path
  is returned as a candidate.
\<close>

theorem foreign_host_accepted_counterexample:
  "extractMedia foreign_host_dom
     = [\<lparr>url = ''https://evil.example/instagram.com/logo.png'', type = ImageType\<rparr>]
   \<and> url_host ''https://evil.example/instagram.com/logo.png'' = ''evil.example''
   \<and> \<not> str_includes ''evil.example'' ''instagram.com''
   \<and> \<not> str_includes ''evil.example'' ''scontent''"
  by (simp add: example_defs extract_defs url_host_def)

text \<open>
  Claim C7, as the code has it. A candidate is accepted only if its normalized URL
  contains \<open>scontent\<close> or \<open>instagram.com\<close> somewhere, in the host or not; a URL that
  contains neither is never returned.
\<close>

theorem extractMedia_on_cdn:
  "\<forall>m \<in> set (extractMedia document).
     str_includes (url m) ''scontent'' \<or> str_includes (url m) ''instagram.com''"
proof
  fix m assume "m \<in> set (extractMedia document)"
  then have "url m \<in> url ` set (extractMedia document)" by simp
  then obtain el where "accepted el (url m)"
    unfolding extractMedia_urls by blast
  then show "str_includes (url m) ''scontent'' \<or> str_includes (url m) ''instagram.com''"
    by (simp add: accepted_def onCdn_def)
qed

theorem extractMedia_on_cdn_witness:
  "extractMedia photo_dom \<noteq> []
   \<and> str_includes (url (hd (extractMedia photo_dom))) ''scontent''"
  using extractMedia_on_cdn [of photo_dom]
  by (simp add: example_defs extract_defs)


section \<open>Properties of the download\<close>

lemma tryBlock_trace_clean:
  "\<not> list_ex is_release (trace (tryBlock postUrl ctype downloadsDir w))
   \<and> EvFallback \<notin> set (trace (tryBlock postUrl ctype downloadsDir w))"
  by (simp add: tryBlock_def Let_def split: sum.splits list.splits)

lemma tryBlock_browserInstance:
  "getBrowserResult w = Inr h \<Longrightarrow>
   browserInstance (tryBlock postUrl ctype downloadsDir w) = Some h"
  by (simp add: tryBlock_def Let_def split: sum.splits list.splits)

lemma fallback_trace_clean:
  "\<not> list_ex is_release (fst (downloadFallbackContent ctype downloadsDir platform w))"
  by (simp add: downloadFallbackContent_def Let_def)

lemma catchBlock_trace:
  "EvFallback \<in> set (fst (catchBlock a message ctype downloadsDir w))
   \<and> \<not> list_ex is_release (fst (catchBlock a message ctype downloadsDir w))"
  by (simp add: catchBlock_def Let_def fallback_trace_clean split: option.splits)

text \<open>
  Claim C2, as stated: when the primary pipeline fails, the browser is released before
  the fallback starts. The release sits in the \<open>finally\<close> block, which runs after the
  \<open>catch\<close> block has awaited the fallback: on a navigation timeout the fallback is
  called and requests its asset while browser 0 is still checked out, and the release is the last
  event.
\<close>

theorem fallback_runs_before_release_counterexample:
  "fst (downloadInstagramContent ''https://www.instagram.com/p/abc/'' ''post'' ''downloads''
          navigation_timeout_world)
     = [EvGetBrowser, EvNewPage, EvGoto ''https://www.instagram.com/p/abc/'', EvFallback,
        EvDownload ''https://picsum.photos/800/600'', EvClosePage, EvReleaseBrowser 0]
   \<and> \<not> released_before_fallback
         (fst (downloadInstagramContent ''https://www.instagram.com/p/abc/'' ''post''
                 ''downloads'' navigation_timeout_world))"
  by (simp add: example_defs download_defs released_before_fallback_def)

text \<open>
  Claim C2, as the code has it. When a browser was obtained and the primary pipeline
  fails, the browser stays checked out while the fallback runs and is released once,
  as the last action of the request, after the fallback has finished (provided closing
  the tab does not throw).
\<close>

theorem release_only_after_fallback:
  assumes "getBrowserResult w = Inr h"
    and "outcome (tryBlock postUrl ctype downloadsDir w) = Inl message"
    and "closePageResult w = Inr ()"
  shows "\<exists>before. fst (downloadInstagramContent postUrl ctype downloadsDir w)
                    = before @ [EvReleaseBrowser h]
                \<and> EvFallback \<in> set before \<and> \<not> list_ex is_release before"
proof -
  let ?a = "tryBlock postUrl ctype downloadsDir w"
  let ?c = "catchBlock ?a message ctype downloadsDir w"
  let ?close = "if page ?a then [EvClosePage] else []"
  have f: "fst (finallyBlock ?a w (snd ?c)) = ?close @ [EvReleaseBrowser h]"
    using assms(1,3) by (simp add: finallyBlock_def tryBlock_browserInstance)
  have "fst (downloadInstagramContent postUrl ctype downloadsDir w)
          = (trace ?a @ fst ?c @ ?close) @ [EvReleaseBrowser h]"
    using assms(2) f by (simp add: downloadInstagramContent_def Let_def)
  moreover have "EvFallback \<in> set (trace ?a @ fst ?c @ ?close)"
    using catchBlock_trace [of ?a message ctype downloadsDir w] by simp
  moreover have "\<not> list_ex is_release (trace ?a @ fst ?c @ ?close)"
    using catchBlock_trace [of ?a message ctype downloadsDir w]
          tryBlock_trace_clean [of postUrl ctype downloadsDir w]
    by (auto simp: list_ex_iff)
  ultimately show ?thesis by blast
qed

theorem release_only_after_fallback_witness:
  "getBrowserResult navigation_timeout_world = Inr 0
   \<and> outcome (tryBlock ''https://www.instagram.com/p/abc/'' ''post'' ''downloads''
                navigation_timeout_world)
       = Inl ''Navigation timeout of 45000 ms exceeded''
   \<and> closePageResult navigation_timeout_world = Inr ()
   \<and> (\<exists>before.
         fst (downloadInstagramContent ''https://www.instagram.com/p/abc/'' ''post''
                ''downloads'' navigation_timeout_world) = before @ [EvReleaseBrowser 0]
         \<and> EvFallback \<in> set before \<and> \<not> list_ex is_release before)"
proof -
  have h1: "getBrowserResult navigation_timeout_world = Inr 0"
    by (simp add: example_defs)
  have h2: "outcome (tryBlock ''https://www.instagram.com/p/abc/'' ''post'' ''downloads''
                navigation_timeout_world)
       = Inl ''Navigation timeout of 45000 ms exceeded''"
    by (simp add: example_defs tryBlock_def)
  have h3: "closePageResult navigation_timeout_world = Inr ()"
    by (simp add: example_defs)
  show ?thesis
    using h1 h2 h3 release_only_after_fallback [OF h1 h2 h3] by blast
qed

text \<open>
  Claim C3, as stated: when the primary download and the fallback both fail, the error
  thrown carries both reasons. The message is built from the primary error alone; the
  fallback's message is only logged. With no media on the page and a fallback download
  that times out, the error thrown contains neither the fallback's message nor the
  timeout text in it.
\<close>

theorem fallback_error_not_surfaced_counterexample:
  "snd (downloadInstagramContent ''https://www.instagram.com/p/abc/'' ''post'' ''downloads''
          no_media_no_fallback_world)
     = Inl ''Failed to download content from Instagram or provide fallback: No media found in Instagram post for given URL.''
   \<and> snd (downloadFallbackContent ''post'' ''downloads'' ''instagram''
            no_media_no_fallback_world)
     = Inl ''Fallback download failed: timeout of 30000ms exceeded''
   \<and> \<not> str_includes
         ''Failed to download content from Instagram or provide fallback: No media found in Instagram post for given URL.''
         ''Fallback download failed: timeout of 30000ms exceeded''
   \<and> \<not> str_includes
         ''Failed to download content from Instagram or provide fallback: No media found in Instagram post for given URL.''
         ''timeout of 30000ms exceeded''"
  by (simp add: example_defs download_defs extract_defs)

text \<open>
  Claim C3, as the code has it. When the primary download fails with message \<open>e1\<close> and
  the fallback fails too, the single error thrown is the fixed text followed by \<open>e1\<close>:
  it contains the original reason, and nothing of the fallback's reason (provided closing
  the tab does not throw).
\<close>

theorem fallback_failure_message:
  assumes "outcome (tryBlock postUrl ctype downloadsDir w) = Inl e1"
    and "snd (downloadFallbackContent ctype downloadsDir ''instagram'' w) = Inl e2"
    and "closePageResult w = Inr ()"
  shows "snd (downloadInstagramContent postUrl ctype downloadsDir w)
           = Inl (''Failed to download content from Instagram or provide fallback: '' @ e1)
       \<and> str_includes
           (''Failed to download content from Instagram or provide fallback: '' @ e1) e1"
proof -
  have "snd (downloadInstagramContent postUrl ctype downloadsDir w)
           = Inl (''Failed to download content from Instagram or provide fallback: '' @ e1)"
    using assms
    by (simp add: downloadInstagramContent_def catchBlock_def finallyBlock_def Let_def)
  then show ?thesis
    using str_includes_append
            [of "''Failed to download content from Instagram or provide fallback: ''" e1]
    by simp
qed

theorem fallback_failure_message_witness:
  "outcome (tryBlock ''https://www.instagram.com/p/abc/'' ''post'' ''downloads''
              no_media_no_fallback_world)
     = Inl ''No media found in Instagram post for given URL.''
   \<and> snd (downloadFallbackContent ''post'' ''downloads'' ''instagram''
            no_media_no_fallback_world)
     = Inl ''Fallback download failed: timeout of 30000ms exceeded''
   \<and> closePageResult no_media_no_fallback_world = Inr ()
   \<and> snd (downloadInstagramContent ''https://www.instagram.com/p/abc/'' ''post'' ''downloads''
            no_media_no_fallback_world)
     = Inl (''Failed to download content from Instagram or provide fallback: ''
            @ ''No media found in Instagram post for given URL.'')"
proof -
  have h1: "outcome (tryBlock ''https://www.instagram.com/p/abc/'' ''post'' ''downloads''
              no_media_no_fallback_world)
     = Inl ''No media found in Instagram post for given URL.''"
    by (simp add: example_defs tryBlock_def extract_defs)
  have h2: "snd (downloadFallbackContent ''post'' ''downloads'' ''instagram''
            no_media_no_fallback_world)
     = Inl ''Fallback download failed: timeout of 30000ms exceeded''"
    by (simp add: example_defs downloadFallbackContent_def)
  have h3: "closePageResult no_media_no_fallback_world = Inr ()"
    by (simp add: example_defs)
  show ?thesis
    using h1 h2 h3 fallback_failure_message [OF h1 h2 h3] by blast
qed

text \<open>
  Claim C8, as stated: the fallback takes an image for post and highlight, a video for
  reel and story, and chooses at random for post and story. \<open>downloadFallbackContent\<close>
  never reads \<open>Math.random()\<close>: whatever the random number, it requests the sample
  image for a post and the sample video for a story. The random choice belongs to
  \<open>downloadTestContent\<close>, where it does change the type of a post.
\<close>

theorem fallback_not_random_counterexample:
  "fst (downloadFallbackContent ''post'' ''downloads'' ''instagram''
          (example_world\<lparr>mathRandom := 0\<rparr>))
     = [EvDownload ''https://picsum.photos/800/600'']
   \<and> fst (downloadFallbackContent ''post'' ''downloads'' ''instagram''
          (example_world\<lparr>mathRandom := 2 ^ 53 - 1\<rparr>))
     = [EvDownload ''https://picsum.photos/800/600'']
   \<and> fst (downloadFallbackContent ''story'' ''downloads'' ''instagram''
          (example_world\<lparr>mathRandom := 0\<rparr>))
     = [EvDownload ''https://sample-videos.com/zip/10/mp4/SampleVideo_1280x720_1mb.mp4'']
   \<and> fst (downloadFallbackContent ''story'' ''downloads'' ''instagram''
          (example_world\<lparr>mathRandom := 2 ^ 53 - 1\<rparr>))
     = [EvDownload ''https://sample-videos.com/zip/10/mp4/SampleVideo_1280x720_1mb.mp4'']
   \<and> testMediaType ''post'' (example_world\<lparr>mathRandom := 0\<rparr>) = ImageType
   \<and> testMediaType ''post'' (example_world\<lparr>mathRandom := 2 ^ 53 - 1\<rparr>) = VideoType"
  by (simp add: example_defs download_defs testMediaType_def)

text \<open>
  Claim C8, as the code has it. The fallback maps the content type to a fixed substitute
  asset and requests exactly that one: the sample video for reel, story and video, the
  sample image for post, highlight and every other type. Nothing is chosen at random.
\<close>

theorem fallback_type_is_fixed:
  "fst (downloadFallbackContent ctype downloadsDir platform w)
     = [EvDownload (sampleUrls (if ctype = ''reel'' \<or> ctype = ''story'' \<or> ctype = ''video''
                                then VideoType else ImageType))]"
  by (simp add: downloadFallbackContent_def isVideo_def Let_def)

lemma tryBlock_throws:
  "isl (outcome (tryBlock postUrl ctype downloadsDir w))"
  by (simp add: tryBlock_def Let_def split: sum.splits list.splits)

lemma fallback_throws:
  "isl (snd (downloadFallbackContent ctype downloadsDir platform w))"
  by (simp add: downloadFallbackContent_def Let_def split: sum.splits)

lemma catchBlock_throws:
  "isl (snd (catchBlock a message ctype downloadsDir w))"
  using fallback_throws [of ctype downloadsDir "''instagram''" w]
  by (auto simp: catchBlock_def Let_def isl_def split: sum.splits)

lemma finallyBlock_throws:
  "isl r \<Longrightarrow> isl (snd (finallyBlock a w r))"
  by (simp add: finallyBlock_def Let_def split: sum.splits)

text \<open>
  No request ends with a manifest: whatever the page, the network and the file system
  do, \<open>downloadInstagramContent\<close> throws, since both the primary download and the
  fallback download stop at \<open>fsPromises.createWriteStream\<close> when nothing failed before.
\<close>

lemma downloadInstagramContent_throws:
  "isl (snd (downloadInstagramContent postUrl ctype downloadsDir w))"
proof -
  let ?a = "tryBlock postUrl ctype downloadsDir w"
  obtain message where m: "outcome ?a = Inl message"
    using tryBlock_throws [of postUrl ctype downloadsDir w] by (auto simp: isl_def)
  have "isl (snd (finallyBlock ?a w (snd (catchBlock ?a message ctype downloadsDir w))))"
    by (rule finallyBlock_throws) (rule catchBlock_throws)
  then show ?thesis
    using m by (simp add: downloadInstagramContent_def Let_def)
qed


end
